theory Spec2Isabelle
  imports Complex_Main
begin

section \<open>Data model of \<^verbatim>\<open>asf_search/WKT/validate_wkt.py\<close>\<close>

text \<open>
  A coordinate is \<open>(x, y, z)\<close> with longitude \<open>x\<close>, latitude \<open>y\<close> and an optional third
  ordinate. Python floats are modelled as exact reals.

  \<open>validate_wkt\<close> parses its argument (or the text of its argument) with shapely's WKT
  reader, so the geometries it works on are the classes that the reader returns. A \<open>Point\<close>
  holds at most one coordinate. A \<open>LinearRing\<close> is a closed line: its class is a subclass of
  \<open>LineString\<close>, and its \<open>geom_type\<close> is \<open>LinearRing\<close>. A \<open>Polygon\<close> holds its exterior
  ring as shapely stores it (the closing vertex repeated at the end) and the list of its
  interior rings. The four multi-part classes (the subclasses of \<open>BaseMultipartGeometry\<close>)
  hold their member list \<open>geoms\<close>.
\<close>

type_synonym coord = "real \<times> real \<times> real option"

datatype geometry =
    Point "coord option"
  | LineString "coord list"
  | LinearRing "coord list"
  | Polygon "coord list" "coord list list"
  | MultiPoint "geometry list"
  | MultiLineString "geometry list"
  | MultiPolygon "geometry list"
  | GeometryCollection "geometry list"

text \<open>
  The exceptions of the source. The three \<open>ASFWKTError\<close>s are told apart by their message:
  \<open>InvalidGeometry\<close> is \<open>WKT string: "..." is not a valid WKT string\<close> (it carries the
  geometry whose text is printed), \<open>UnsupportedGeometryType\<close> is \<open>The provided WKT is not a
  valid type\<close>, \<open>SimplificationBoundExceeded\<close> is \<open>Could not simplify ... past 300 points\<close>.
  The others are the Python exceptions that the calls of the source raise: \<open>ValueError\<close>
  (the distance function unpacking a three-dimensional point into two names),
  \<open>AttributeError\<close> (\<open>geometry.geoms\<close> on a geometry that has no members, \<open>exterior\<close> on a
  geometry that is not a Polygon), \<open>IndexError\<close> (indexing the empty \<open>bounds\<close> tuple of an
  empty geometry), \<open>UnpackError\<close> (unpacking a one-member multi-part geometry into two
  names) and \<open>LibraryError\<close> (an exception raised inside one of shapely's orientation
  functions).
\<close>

datatype error =
    InvalidGeometry geometry
  | UnsupportedGeometryType
  | SimplificationBoundExceeded
  | ValueError
  | AttributeError
  | IndexError
  | UnpackError
  | LibraryError

text \<open>
  \<open>RepairEntry\<close> is a pair of a report type and a report text; the text is modelled by the
  values its format string prints. The warning of the flattener is a diagnostic as well.
\<close>

datatype report_type =
    OVERLAP_MERGE | REVERSE | CLAMP | WRAP | CONVEX_HULL_INDIVIDUAL
  | GEOMETRY_SIMPLIFICATION | HIGHER_DIMENSION_DROPPED

datatype report =
    NonOverlappingMergedByHulls nat
  | OverlappingMergedIntoOne nat
  | ReversedWindingOrder
  | ClampedValues nat
  | WrappedValues nat
  | UnconnectedShapesHulled
  | ShapeSimplified nat nat real
  | HigherDimensionIgnored

type_synonym RepairEntry = "report_type \<times> report"

text \<open>
  The operations of shapely that are computational geometry proper are parameters of the
  model: validity, union, convex hull, Douglas-Peucker simplification, and the two
  orientation functions. \<open>orient_polygon\<close> is \<open>shapely.geometry.polygon.orient\<close> with sign
  1.0, applied to a Polygon, and \<open>is_ccw\<close> is the property \<open>is_ccw\<close> of a ring: which rings
  the library takes to be counter-clockwise, and which it reverses, is decided inside the
  library on machine numbers, and nothing is assumed about it here. Both return \<open>None\<close> when
  the library raises. \<open>nan_bounds\<close> tells what the library gives as the \<open>bounds\<close> of an empty
  geometry: four NaNs (shapely 2) or the empty tuple (shapely 1).
\<close>

record shapely =
  is_valid :: "geometry \<Rightarrow> bool"
  unary_union :: "geometry \<Rightarrow> geometry"
  convex_hull :: "geometry \<Rightarrow> geometry"
  simplify :: "geometry \<Rightarrow> real \<Rightarrow> geometry"
  orient_polygon :: "geometry \<Rightarrow> geometry option"
  is_ccw :: "coord list \<Rightarrow> bool option"
  nan_bounds :: bool

subsection \<open>Attributes of a geometry\<close>

fun geom_type :: "geometry \<Rightarrow> string" where
  "geom_type (Point _) = ''Point''"
| "geom_type (LineString _) = ''LineString''"
| "geom_type (LinearRing _) = ''LinearRing''"
| "geom_type (Polygon _ _) = ''Polygon''"
| "geom_type (MultiPoint _) = ''MultiPoint''"
| "geom_type (MultiLineString _) = ''MultiLineString''"
| "geom_type (MultiPolygon _) = ''MultiPolygon''"
| "geom_type (GeometryCollection _) = ''GeometryCollection''"


fun isinstance_Polygon :: "geometry \<Rightarrow> bool" where
  "isinstance_Polygon (Polygon _ _) = True"
| "isinstance_Polygon _ = False"

fun is_multipart :: "geometry \<Rightarrow> bool" where
  "is_multipart (MultiPoint _) = True"
| "is_multipart (MultiLineString _) = True"
| "is_multipart (MultiPolygon _) = True"
| "is_multipart (GeometryCollection _) = True"
| "is_multipart _ = False"

fun geoms :: "geometry \<Rightarrow> geometry list" where
  "geoms (MultiPoint gs) = gs"
| "geoms (MultiLineString gs) = gs"
| "geoms (MultiPolygon gs) = gs"
| "geoms (GeometryCollection gs) = gs"
| "geoms _ = []"

text \<open>Every coordinate of a geometry, rings and members in order.\<close>

fun all_coords :: "geometry \<Rightarrow> coord list"
  and all_coords_list :: "geometry list \<Rightarrow> coord list" where
  "all_coords (Point c) = (case c of None \<Rightarrow> [] | Some p \<Rightarrow> [p])"
| "all_coords (LineString cs) = cs"
| "all_coords (LinearRing cs) = cs"
| "all_coords (Polygon ext holes) = ext @ concat holes"
| "all_coords (MultiPoint gs) = all_coords_list gs"
| "all_coords (MultiLineString gs) = all_coords_list gs"
| "all_coords (MultiPolygon gs) = all_coords_list gs"
| "all_coords (GeometryCollection gs) = all_coords_list gs"
| "all_coords_list [] = []"
| "all_coords_list (g # gs) = all_coords g @ all_coords_list gs"

definition is_empty :: "geometry \<Rightarrow> bool" where
  "is_empty g = (all_coords g = [])"

definition has_z :: "geometry \<Rightarrow> bool" where
  "has_z g = list_ex (\<lambda>(x, y, z). z \<noteq> None) (all_coords g)"

subsection \<open>Vertex list used by the simplifier\<close>

text \<open>
  \<open>_get_shape_coords\<close>: the exterior ring without its last coordinate for a Polygon, the
  coordinates of a LineString or Point, the concatenation over the members otherwise. The
  three tests compare \<open>geom_type\<close> with a name, so a LinearRing passes none of them, and it
  has no \<open>geoms\<close>: reading them raises \<open>AttributeError\<close>.
\<close>

fun get_shape_coords :: "geometry \<Rightarrow> error + coord list"
  and get_geoms_coords :: "geometry list \<Rightarrow> error + coord list" where
  "get_shape_coords (Polygon ext holes) = Inr (butlast ext)"
| "get_shape_coords (LineString cs) = Inr cs"
| "get_shape_coords (Point c) = Inr (case c of None \<Rightarrow> [] | Some p \<Rightarrow> [p])"
| "get_shape_coords (MultiPoint gs) = get_geoms_coords gs"
| "get_shape_coords (MultiLineString gs) = get_geoms_coords gs"
| "get_shape_coords (MultiPolygon gs) = get_geoms_coords gs"
| "get_shape_coords (GeometryCollection gs) = get_geoms_coords gs"
| "get_shape_coords (LinearRing cs) = Inl AttributeError"
| "get_geoms_coords [] = Inr []"
| "get_geoms_coords (g # gs) =
     (case get_shape_coords g of
        Inl e \<Rightarrow> Inl e
      | Inr coords \<Rightarrow>
          (case get_geoms_coords gs of
             Inl e \<Rightarrow> Inl e
           | Inr output \<Rightarrow> Inr (coords @ output)))"

definition get_shape_coords_len :: "geometry \<Rightarrow> error + nat" where
  "get_shape_coords_len geometry =
     (case get_shape_coords geometry of Inl e \<Rightarrow> Inl e | Inr cs \<Rightarrow> Inr (length cs))"

subsection \<open>Nearest-neighbour distance\<close>

text \<open>
  The haversine distance of the source, in kilometres, between two \<open>(lon, lat)\<close> pairs.
\<close>

definition radians :: "real \<Rightarrow> real" where
  "radians d = d * pi / 180"

definition distance :: "coord \<Rightarrow> coord \<Rightarrow> real" where
  "distance p1 p2 =
     (case p1 of (lon1, lat1, _) \<Rightarrow> case p2 of (lon2, lat2, _) \<Rightarrow>
        let lon1 = radians lon1; lat1 = radians lat1;
            lon2 = radians lon2; lat2 = radians lat2;
            dlon = lon2 - lon1;
            dlat = lat2 - lat1;
            a = (sin (dlat / 2))\<^sup>2 + cos lat1 * cos lat2 * (sin (dlon / 2))\<^sup>2;
            c = 2 * arcsin (sqrt a);
            km = 6367 * c
        in km)"

text \<open>
  \<open>NearestNeighbors(n_neighbors=2).fit(points).kneighbors(points)\<close> returns, for each point,
  the two smallest distances to the fitted points in increasing order; the point itself is
  one of the fitted points. The source keeps the second of the two and returns the minimum
  over all points, or infinity (\<open>None\<close> here) when there are fewer than two points. The
  distance function unpacks each point into two names, which fails on a point with a
  third ordinate.
\<close>

definition second_nearest :: "coord list \<Rightarrow> coord \<Rightarrow> real" where
  "second_nearest points p = sort (map (distance p) points) ! 1"

definition nearest_neighbor :: "geometry \<Rightarrow> error + real option" where
  "nearest_neighbor geometry =
     (case get_shape_coords geometry of
        Inl e \<Rightarrow> Inl e
      | Inr points \<Rightarrow>
          if length points < 2 then Inr None
          else if list_ex (\<lambda>(x, y, z). z \<noteq> None) points then Inl ValueError
          else Inr (Some (min_list (map (second_nearest points) points))))"

text \<open>\<open>d > t\<close> for a distance that may be infinite.\<close>

fun exceeds :: "real option \<Rightarrow> real \<Rightarrow> bool" where
  "exceeds None t = True"
| "exceeds (Some d) t = (d > t)"

subsection \<open>Adaptive simplifier\<close>

text \<open>
  \<open>_simplify_aoi\<close>. The depth is a Python number that the source compares with zero and
  decrements, so it is an integer here and the recursion is not structural: the function
  is defined as a partial function, \<open>None\<close> meaning that the call does not return. The text
  round trip \<open>wkt.loads(shape.wkt)\<close> is the identity on exact coordinates. The report of a
  step is built, and so both vertex counts are computed, before the recursive call.
\<close>

partial_function (option) simplify_aoi ::
  "shapely \<Rightarrow> geometry \<Rightarrow> real \<Rightarrow> int \<Rightarrow> (error + geometry \<times> RepairEntry list) option" where
  "simplify_aoi L shape threshold max_depth =
     (case nearest_neighbor shape of
        Inl e \<Rightarrow> Some (Inl e)
      | Inr nearest_neighbor_distance \<Rightarrow>
          if geom_type shape = ''Point'' then Some (Inr (shape, []))
          else
            (case get_shape_coords_len shape of
               Inl e \<Rightarrow> Some (Inl e)
             | Inr n \<Rightarrow>
                 if n \<le> 300 \<and> exceeds nearest_neighbor_distance 0.004
                 then Some (Inr (shape, []))
                 else if max_depth = 0 then Some (Inl SimplificationBoundExceeded)
                 else
                   (let simplified = simplify L shape threshold in
                    case get_shape_coords_len simplified of
                      Inl e \<Rightarrow> Some (Inl e)
                    | Inr m \<Rightarrow>
                        (let repair = (GEOMETRY_SIMPLIFICATION, ShapeSimplified n m threshold) in
                         Option.bind (simplify_aoi L simplified (threshold * 5) (max_depth - 1))
                           (\<lambda>r. case r of
                                  Inl e \<Rightarrow> Some (Inl e)
                                | Inr (output, repairs) \<Rightarrow> Some (Inr (output, repair # repairs)))))))"

subsection \<open>Coordinate-wise transformation\<close>

text \<open>
  shapely's \<open>transform(func, geom)\<close> with a function of single ordinates: an empty geometry
  is returned as it is, the function is applied to every coordinate of a Point, a
  LineString, a LinearRing and the rings of a Polygon, and a multi-part geometry is rebuilt
  from its transformed members.
\<close>

fun transform :: "(coord \<Rightarrow> coord) \<Rightarrow> geometry \<Rightarrow> geometry"
  and transform_parts :: "(coord \<Rightarrow> coord) \<Rightarrow> geometry list \<Rightarrow> geometry list" where
  "transform func (Point c) =
     (if is_empty (Point c) then Point c else Point (map_option func c))"
| "transform func (LineString cs) =
     (if is_empty (LineString cs) then LineString cs else LineString (map func cs))"
| "transform func (LinearRing cs) =
     (if is_empty (LinearRing cs) then LinearRing cs else LinearRing (map func cs))"
| "transform func (Polygon ext holes) =
     (if is_empty (Polygon ext holes) then Polygon ext holes
      else Polygon (map func ext) (map (map func) holes))"
| "transform func (MultiPoint gs) =
     (if is_empty (MultiPoint gs) then MultiPoint gs
      else MultiPoint (transform_parts func gs))"
| "transform func (MultiLineString gs) =
     (if is_empty (MultiLineString gs) then MultiLineString gs
      else MultiLineString (transform_parts func gs))"
| "transform func (MultiPolygon gs) =
     (if is_empty (MultiPolygon gs) then MultiPolygon gs
      else MultiPolygon (transform_parts func gs))"
| "transform func (GeometryCollection gs) =
     (if is_empty (GeometryCollection gs) then GeometryCollection gs
      else GeometryCollection (transform_parts func gs))"
| "transform_parts func [] = []"
| "transform_parts func (g # gs) = transform func g # transform_parts func gs"

text \<open>
  \<open>geom.bounds\<close>, of which the source reads the least and the greatest longitude. The
  envelope of a Polygon is the envelope of its exterior ring. An empty geometry has no
  finite bounds (\<open>None\<close>).
\<close>

fun envelope_coords :: "geometry \<Rightarrow> coord list"
  and envelope_coords_list :: "geometry list \<Rightarrow> coord list" where
  "envelope_coords (Point c) = (case c of None \<Rightarrow> [] | Some p \<Rightarrow> [p])"
| "envelope_coords (LineString cs) = cs"
| "envelope_coords (LinearRing cs) = cs"
| "envelope_coords (Polygon ext holes) = ext"
| "envelope_coords (MultiPoint gs) = envelope_coords_list gs"
| "envelope_coords (MultiLineString gs) = envelope_coords_list gs"
| "envelope_coords (MultiPolygon gs) = envelope_coords_list gs"
| "envelope_coords (GeometryCollection gs) = envelope_coords_list gs"
| "envelope_coords_list [] = []"
| "envelope_coords_list (g # gs) = envelope_coords g @ envelope_coords_list gs"

definition bounds :: "geometry \<Rightarrow> (real \<times> real \<times> real \<times> real) option" where
  "bounds g =
     (case envelope_coords g of
        [] \<Rightarrow> None
      | c # cs \<Rightarrow>
          (let xs = map fst (c # cs); ys = map (\<lambda>p. fst (snd p)) (c # cs)
           in Some (Min (set xs), Min (set ys), Max (set xs), Max (set ys))))"

subsection \<open>Coordinate normalizer\<close>

definition clamp :: "real \<Rightarrow> real" where
  "clamp num = max (- 90) (min 90 num)"

text \<open>Python's \<open>a % b\<close> on numbers: the result has the sign of \<open>b\<close>.\<close>

definition py_mod :: "real \<Rightarrow> real \<Rightarrow> real" where
  "py_mod a b = a - b * of_int \<lfloor>a / b\<rfloor>"

definition wrapped_lon :: "real \<Rightarrow> real" where
  "wrapped_lon x = (if \<bar>x\<bar> > 180 then py_mod (x + 180) 360 - 180 else x)"

definition clamp_lat :: "coord \<Rightarrow> coord" where
  "clamp_lat c = (case c of (x, y, z) \<Rightarrow> (x, clamp y, None))"

definition wrap_lon :: "coord \<Rightarrow> coord" where
  "wrap_lon c = (case c of (x, y, z) \<Rightarrow> (wrapped_lon x, y, None))"

definition unwrap_lon :: "coord \<Rightarrow> coord" where
  "unwrap_lon c = (case c of (x, y, z) \<Rightarrow> ((if x \<ge> 0 then x else x + 360), y, None))"

text \<open>
  \<open>_get_clamped_geometry\<close>. The two counters of the source are incremented once for every
  coordinate that \<open>transform\<close> visits and that the function changes; \<open>transform\<close> visits
  every coordinate of the geometry once. On an empty geometry the test of the longitude
  span either raises (the bounds are the empty tuple) or is false (the bounds are NaN).
\<close>

definition get_clamped_geometry ::
  "shapely \<Rightarrow> geometry \<Rightarrow> error + geometry \<times> RepairEntry option list" where
  "get_clamped_geometry L shape =
     (let wrapped = transform wrap_lon shape;
          coords_wrapped = length (filter (\<lambda>(x, y, z). wrapped_lon x \<noteq> x) (all_coords shape))
      in case (case bounds wrapped of
                 None \<Rightarrow> if nan_bounds L then Inr wrapped else Inl IndexError
               | Some (minx, miny, maxx, maxy) \<Rightarrow>
                   Inr (if maxx - minx > 180 then transform unwrap_lon wrapped else wrapped)) of
           Inl e \<Rightarrow> Inl e
         | Inr unwrapped \<Rightarrow>
             (let clamped = transform clamp_lat unwrapped;
                  coords_clamped =
                    length (filter (\<lambda>(x, y, z). clamp y \<noteq> y) (all_coords unwrapped));
                  clampRepairReport =
                    (if coords_clamped > 0 then Some (CLAMP, ClampedValues coords_clamped)
                     else None);
                  wrapRepairReport =
                    (if coords_wrapped > 0 then Some (WRAP, WrappedValues coords_wrapped)
                     else None)
              in Inr (clamped, [clampRepairReport, wrapRepairReport])))"

subsection \<open>Flattener\<close>

fun recurse_nested_geometry :: "geometry \<Rightarrow> geometry list"
  and recurse_nested_geoms :: "geometry list \<Rightarrow> geometry list" where
  "recurse_nested_geometry (MultiPoint gs) = recurse_nested_geoms gs"
| "recurse_nested_geometry (MultiLineString gs) = recurse_nested_geoms gs"
| "recurse_nested_geometry (MultiPolygon gs) = recurse_nested_geoms gs"
| "recurse_nested_geometry (GeometryCollection gs) = recurse_nested_geoms gs"
| "recurse_nested_geometry (Point c) = (if \<not> is_empty (Point c) then [Point c] else [])"
| "recurse_nested_geometry (LineString cs) =
     (if \<not> is_empty (LineString cs) then [LineString cs] else [])"
| "recurse_nested_geometry (LinearRing cs) =
     (if \<not> is_empty (LinearRing cs) then [LinearRing cs] else [])"
| "recurse_nested_geometry (Polygon ext holes) =
     (if \<not> is_empty (Polygon ext holes) then [Polygon ext holes] else [])"
| "recurse_nested_geoms [] = []"
| "recurse_nested_geoms (g # gs) = recurse_nested_geometry g @ recurse_nested_geoms gs"

text \<open>
  \<open>_flatten_multipart_geometry\<close>. The warning is emitted first; it is returned here with
  the flattened geometry.
\<close>

definition flatten_multipart_geometry :: "geometry \<Rightarrow> geometry \<times> RepairEntry list" where
  "flatten_multipart_geometry geometry =
     (let warnings =
            (if has_z geometry then [(HIGHER_DIMENSION_DROPPED, HigherDimensionIgnored)]
             else []);
          flattened = recurse_nested_geometry geometry
      in ((if length flattened = 1 then flattened ! 0 else GeometryCollection flattened),
          warnings))"

subsection \<open>Ring orientation\<close>

text \<open>
  \<open>shapely.ops.orient\<close>, the \<open>orient\<close> that the module ends up importing (the import from
  \<open>shapely.ops\<close> comes second): member-wise on a multi-part geometry, the library's
  orientation of a polygon on a Polygon, the geometry itself otherwise.
\<close>

fun orient :: "shapely \<Rightarrow> geometry \<Rightarrow> error + geometry"
  and orient_parts :: "shapely \<Rightarrow> geometry list \<Rightarrow> error + geometry list" where
  "orient L (MultiPoint gs) =
     (case orient_parts L gs of Inl e \<Rightarrow> Inl e | Inr ps \<Rightarrow> Inr (MultiPoint ps))"
| "orient L (MultiLineString gs) =
     (case orient_parts L gs of Inl e \<Rightarrow> Inl e | Inr ps \<Rightarrow> Inr (MultiLineString ps))"
| "orient L (MultiPolygon gs) =
     (case orient_parts L gs of Inl e \<Rightarrow> Inl e | Inr ps \<Rightarrow> Inr (MultiPolygon ps))"
| "orient L (GeometryCollection gs) =
     (case orient_parts L gs of Inl e \<Rightarrow> Inl e | Inr ps \<Rightarrow> Inr (GeometryCollection ps))"
| "orient L (Polygon ext holes) =
     (case orient_polygon L (Polygon ext holes) of
        None \<Rightarrow> Inl LibraryError
      | Some p \<Rightarrow> Inr p)"
| "orient L (Point c) = Inr (Point c)"
| "orient L (LineString cs) = Inr (LineString cs)"
| "orient L (LinearRing cs) = Inr (LinearRing cs)"
| "orient_parts L [] = Inr []"
| "orient_parts L (g # gs) =
     (case orient L g of
        Inl e \<Rightarrow> Inl e
      | Inr p \<Rightarrow> (case orient_parts L gs of Inl e \<Rightarrow> Inl e | Inr ps \<Rightarrow> Inr (p # ps)))"

text \<open>\<open>g.exterior\<close>, an attribute of a Polygon only, and \<open>ring.is_ccw\<close>.\<close>

fun exterior :: "geometry \<Rightarrow> error + coord list" where
  "exterior (Polygon ext holes) = Inr ext"
| "exterior _ = Inl AttributeError"

definition exterior_is_ccw :: "shapely \<Rightarrow> geometry \<Rightarrow> error + bool" where
  "exterior_is_ccw L g =
     (case exterior g of
        Inl e \<Rightarrow> Inl e
      | Inr ring \<Rightarrow> (case is_ccw L ring of None \<Rightarrow> Inl LibraryError | Some b \<Rightarrow> Inr b))"

subsection \<open>Validity repair\<close>



subsection \<open>Region merger, convex hull reducer, winding normalizer\<close>

text \<open>
  \<open>_merge_overlapping_geometry\<close> returns a pair on two of its paths and the geometry alone
  on the path of a multi-part geometry with one member; the caller unpacks the result
  into two names.
\<close>

datatype merge_result = Paired geometry "RepairEntry option" | Bare geometry

definition merge_overlapping_geometry :: "shapely \<Rightarrow> geometry \<Rightarrow> error + merge_result" where
  "merge_overlapping_geometry L geometry =
     (if is_multipart geometry then
        (let original_amount = length (geoms geometry) in
         if original_amount = 1 then Inr (Bare geometry)
         else
           (let merged = unary_union L geometry in
            if is_multipart merged then
              (let unique_shapes = length (geoms merged) in
               case orient L (unary_union L
                                (GeometryCollection (map (convex_hull L) (geoms merged)))) of
                 Inl e \<Rightarrow> Inl e
               | Inr merged' \<Rightarrow>
                   Inr (Paired merged'
                          (Some (OVERLAP_MERGE, NonOverlappingMergedByHulls unique_shapes))))
            else
              Inr (Paired merged
                     (Some (OVERLAP_MERGE, OverlappingMergedIntoOne original_amount)))))
      else Inr (Paired geometry None))"

fun unpack :: "merge_result \<Rightarrow> error + geometry \<times> RepairEntry option" where
  "unpack (Paired g r) = Inr (g, r)"
| "unpack (Bare g) = Inl UnpackError"

definition get_convex_hull :: "shapely \<Rightarrow> geometry \<Rightarrow> geometry \<times> RepairEntry option" where
  "get_convex_hull L geometry =
     (if geom_type geometry \<notin>
           set [''MultiPoint'', ''MultiLineString'', ''MultiPolygon'', ''GeometryCollection'']
      then (geometry, None)
      else (convex_hull L geometry, Some (CONVEX_HULL_INDIVIDUAL, UnconnectedShapesHulled)))"

text \<open>
  \<open>_counter_clockwise_reorientation\<close>: the report is returned when the geometry is a
  Polygon and the library's \<open>is_ccw\<close> of the exterior ring differs before and after
  \<open>orient\<close>.
\<close>

definition counter_clockwise_reorientation ::
  "shapely \<Rightarrow> geometry \<Rightarrow> error + geometry \<times> RepairEntry option" where
  "counter_clockwise_reorientation L geometry =
     (let reoriented_report = (REVERSE, ReversedWindingOrder) in
      case orient L geometry of
        Inl e \<Rightarrow> Inl e
      | Inr reoriented \<Rightarrow>
          if isinstance_Polygon geometry then
            (case exterior_is_ccw L reoriented of
               Inl e \<Rightarrow> Inl e
             | Inr after \<Rightarrow>
                 (case exterior_is_ccw L geometry of
                    Inl e \<Rightarrow> Inl e
                  | Inr before \<Rightarrow>
                      if after \<noteq> before then Inr (reoriented, Some reoriented_report)
                      else Inr (reoriented, None)))
          else Inr (reoriented, None))"

subsection \<open>Coordinate rounder and the pipeline\<close>

text \<open>
  Python's \<open>round(x, 14)\<close>: the nearest multiple of \<open>10^-14\<close>, a tie going to the even
  multiple.
\<close>

definition round_half_even :: "real \<Rightarrow> int" where
  "round_half_even x =
     (let f = \<lfloor>x\<rfloor>; d = x - of_int f
      in if d < 1 / 2 then f else if d > 1 / 2 then f + 1 else if even f then f else f + 1)"

definition py_round :: "real \<Rightarrow> nat \<Rightarrow> real" where
  "py_round x n = of_int (round_half_even (x * 10 ^ n)) / 10 ^ n"

definition round14 :: "coord \<Rightarrow> coord" where
  "round14 c = (case c of (x, y, z) \<Rightarrow> (py_round x 14, py_round y 14, None))"

text \<open>
  \<open>_simplify_geometry\<close>. The warnings are returned in the order in which the source emits
  them: the flattener's first, then the reports that are not \<open>None\<close>, in the order of
  \<open>repair_reports\<close>.
\<close>

definition simplify_geometry ::
  "shapely \<Rightarrow> geometry \<Rightarrow> (error + geometry \<times> RepairEntry list) option" where
  "simplify_geometry L geometry =
     (case flatten_multipart_geometry geometry of (flattened, warnings) \<Rightarrow>
      case get_clamped_geometry L flattened of
        Inl e \<Rightarrow> Some (Inl e)
      | Inr (clamped, clamp_report) \<Rightarrow>
      case merge_overlapping_geometry L clamped of
        Inl e \<Rightarrow> Some (Inl e)
      | Inr result \<Rightarrow>
      case unpack result of
        Inl e \<Rightarrow> Some (Inl e)
      | Inr (merged, merge_report) \<Rightarrow>
      case get_convex_hull L merged of (convex, convex_report) \<Rightarrow>
      case simplify_aoi L convex 0.00001 10 of
        None \<Rightarrow> None
      | Some (Inl e) \<Rightarrow> Some (Inl e)
      | Some (Inr (simplified, simplified_report)) \<Rightarrow>
      case counter_clockwise_reorientation L simplified of
        Inl e \<Rightarrow> Some (Inl e)
      | Inr (reoriented, reorientation_report) \<Rightarrow>
      (let repair_reports =
             [merge_report, convex_report] @ clamp_report @ map Some simplified_report
             @ [reorientation_report];
           validated = transform round14 reoriented
       in Some (Inr (validated, warnings @ map the (filter (\<lambda>r. r \<noteq> None) repair_reports)))))"


text \<open>
  A library instance for evaluating the pipeline on concrete inputs: every geometry is
  valid, union, hull and simplification return their argument, a polygon is left as it is
  by the orientation and its rings count as counter-clockwise, and an empty geometry has
  NaN bounds.
\<close>

definition shapely_stub :: shapely where
  "shapely_stub =
     \<lparr> is_valid = (\<lambda>g. True), unary_union = (\<lambda>g. g), convex_hull = (\<lambda>g. g),
       simplify = (\<lambda>g t. g), orient_polygon = (\<lambda>g. Some g), is_ccw = (\<lambda>ring. Some True),
       nan_bounds = True \<rparr>"

subsection \<open>Predicates used in the statements\<close>







section \<open>The adaptive simplifier returns\<close>

lemma simplify_aoi_returns: "\<exists>r. simplify_aoi L g t (int n) = Some r"
proof (induction n arbitrary: g t)
  case 0
  show ?case
    by (subst simplify_aoi.simps) (auto split: sum.splits simp: Let_def)
next
  case (Suc n)
  have step: "int (Suc n) - 1 = int n" by simp
  obtain r where r: "simplify_aoi L (simplify L g t) (t * 5) (int n) = Some r"
    using Suc.IH by blast
  show ?case
    by (subst simplify_aoi.simps) (auto split: sum.splits simp: Let_def step r)
qed

lemma simplify_aoi_depth_zero:
  "simplify_aoi L g t 0 = Some (Inr (g, [])) \<or> (\<exists>e. simplify_aoi L g t 0 = Some (Inl e))"
  by (subst (1 2) simplify_aoi.simps) (auto split: sum.splits simp: Let_def)

text \<open>
  Claim C6. The adaptive simplifier terminates for every input geometry: called with the
  depth 10 of the pipeline, and with any depth counter that is a natural number, it
  returns a geometry or raises. At depth zero there is no further recursive call: the
  geometry is returned as it is or the call fails.
\<close>

theorem C6_simplify_aoi_terminates:
  "(\<exists>r. simplify_aoi L shape threshold 10 = Some r)
   \<and> (\<exists>r. simplify_aoi L shape threshold (int n) = Some r)
   \<and> (simplify_aoi L shape threshold 0 = Some (Inr (shape, []))
      \<or> (\<exists>e. simplify_aoi L shape threshold 0 = Some (Inl e)))"
proof -
  have "\<exists>r. simplify_aoi L shape threshold (int 10) = Some r"
    by (rule simplify_aoi_returns)
  then have "\<exists>r. simplify_aoi L shape threshold 10 = Some r" by simp
  then show ?thesis
    using simplify_aoi_returns [of L shape threshold n] simplify_aoi_depth_zero [of L shape threshold]
    by blast
qed

theorem C6_simplify_aoi_terminates_witness:
  "\<exists>r. simplify_aoi shapely_stub (LineString [(0, 0, None), (0, 0, None)]) 0.00001 10 = Some r"
  using C6_simplify_aoi_terminates [of shapely_stub "LineString [(0, 0, None), (0, 0, None)]" "0.00001" 0]
  by blast

section \<open>Vertices counted by the simplifier\<close>

lemma nearest_neighbor_Polygon:
  "nearest_neighbor (Polygon ext holes) = nearest_neighbor (LineString (butlast ext))"
  by (simp add: nearest_neighbor_def)

lemma simplify_aoi_Polygon_unchanged:
  "simplify_aoi L (Polygon ext holes) t d = Some (Inr (p, [])) \<longleftrightarrow>
     p = Polygon ext holes
     \<and> (\<exists>nn. nearest_neighbor (LineString (butlast ext)) = Inr nn
             \<and> length (butlast ext) \<le> 300 \<and> exceeds nn 0.004)"
  by (subst simplify_aoi.simps)
     (auto simp: nearest_neighbor_Polygon get_shape_coords_len_def Let_def
           split: sum.splits option.splits prod.splits Option.bind_splits)

text \<open>
  Claim C10. For every Polygon, the vertex list and the vertex count used by the
  simplifier and by the nearest-neighbour computation are those of the exterior ring
  without its closing vertex, whatever the interior rings are. Hence the simplifier returns
  a Polygon unchanged, with no report, exactly when its exterior non-closing vertices are
  at most 300 and their nearest-neighbour distance exceeds 0.004.
\<close>

theorem C10_polygon_exterior_vertices_only:
  "get_shape_coords (Polygon ext holes) = Inr (butlast ext)
   \<and> get_shape_coords_len (Polygon ext holes) = Inr (length ext - 1)
   \<and> nearest_neighbor (Polygon ext holes) = nearest_neighbor (LineString (butlast ext))
   \<and> (simplify_aoi L (Polygon ext holes) t d = Some (Inr (p, [])) \<longleftrightarrow>
        p = Polygon ext holes
        \<and> (\<exists>nn. nearest_neighbor (LineString (butlast ext)) = Inr nn
                \<and> length (butlast ext) \<le> 300 \<and> exceeds nn 0.004))"
  using nearest_neighbor_Polygon [of ext holes] simplify_aoi_Polygon_unchanged [of L ext holes t d p]
  by (simp add: get_shape_coords_len_def)

theorem C10_polygon_exterior_vertices_only_witness:
  "get_shape_coords
     (Polygon [(0, 0, None), (4, 0, None), (4, 4, None), (0, 4, None), (0, 0, None)]
        [[(1, 1, None), (1, 2, None), (2, 2, None), (1, 1, None)]])
   = Inr [(0, 0, None), (4, 0, None), (4, 4, None), (0, 4, None)]
   \<and> get_shape_coords_len
     (Polygon [(0, 0, None), (4, 0, None), (4, 4, None), (0, 4, None), (0, 0, None)]
        [[(1, 1, None), (1, 2, None), (2, 2, None), (1, 1, None)]])
   = Inr 4"
  using C10_polygon_exterior_vertices_only
    [of "[(0, 0, None), (4, 0, None), (4, 4, None), (0, 4, None), (0, 0, None)]"
        "[[(1, 1, None), (1, 2, None), (2, 2, None), (1, 1, None)]]"]
  by simp

section \<open>Region merger\<close>

lemma merge_non_multipart:
  "\<not> is_multipart g \<Longrightarrow> merge_overlapping_geometry L g = Inr (Paired g None)"
  by (simp add: merge_overlapping_geometry_def)

lemma merge_single_member:
  "is_multipart g \<Longrightarrow> length (geoms g) = 1 \<Longrightarrow> merge_overlapping_geometry L g = Inr (Bare g)"
  by (simp add: merge_overlapping_geometry_def)

text \<open>
  Claim C4. A geometry that is not multi-part is returned unchanged, paired with no
  report (\<open>merge_non_multipart\<close>). On a multi-part geometry with exactly one member the
  source returns the geometry alone, not a pair: at the MultiPolygon of one triangle the
  result is the bare geometry, and unpacking it into \<open>merged, merge_report\<close>, as the caller
  does, raises.
\<close>

theorem C4_single_member_not_paired:
  "merge_overlapping_geometry shapely_stub
     (MultiPolygon [Polygon [(0, 0, None), (1, 0, None), (1, 1, None), (0, 0, None)] []])
   = Inr (Bare (MultiPolygon
                  [Polygon [(0, 0, None), (1, 0, None), (1, 1, None), (0, 0, None)] []]))
   \<and> unpack (Bare (MultiPolygon
                     [Polygon [(0, 0, None), (1, 0, None), (1, 1, None), (0, 0, None)] []]))
     = Inl UnpackError"
  by (simp add: merge_overlapping_geometry_def)

section \<open>Unsupported geometry types\<close>









section \<open>Coordinates and reports along the pipeline\<close>

text \<open>
  \<open>transform\<close> applies its function to every coordinate, and the flattener keeps every
  coordinate; the lemmas below invert the stages of the pipeline on a successful run.
\<close>

lemma all_coords_transform:
  "all_coords (transform f g) = map f (all_coords g)"
  "all_coords_list (transform_parts f gs) = map f (all_coords_list gs)"
proof (induction f g and f gs rule: transform_transform_parts.induct)
  case (4 func ext holes)
  show ?case
  proof (cases "is_empty (Polygon ext holes)")
    case True
    then have "all_coords (Polygon ext holes) = []" by (simp only: is_empty_def)
    then show ?thesis using True by (simp del: all_coords.simps)
  next
    case False
    then show ?thesis by (simp add: map_concat)
  qed
qed (auto simp: is_empty_def split: option.splits)

lemma has_z_set: "has_z g \<longleftrightarrow> (\<exists>c \<in> set (all_coords g). snd (snd c) \<noteq> None)"
  by (simp add: has_z_def list_ex_iff case_prod_beta)

lemma has_z_transform:
  assumes "\<And>c. snd (snd (f c)) = None"
  shows "\<not> has_z (transform f g)"
  using assms by (simp add: has_z_set all_coords_transform)

lemma all_coords_list_append:
  "all_coords_list (xs @ ys) = all_coords_list xs @ all_coords_list ys"
  by (induction xs) auto

lemma all_coords_recurse:
  "all_coords_list (recurse_nested_geometry g) = all_coords g"
  "all_coords_list (recurse_nested_geoms gs) = all_coords_list gs"
  by (induction g and gs rule: recurse_nested_geometry_recurse_nested_geoms.induct)
     (auto simp: is_empty_def all_coords_list_append)

lemma all_coords_flatten: "all_coords (fst (flatten_multipart_geometry g)) = all_coords g"
proof -
  have "all_coords_list (recurse_nested_geometry g) = all_coords g" by (rule all_coords_recurse)
  moreover have "length (recurse_nested_geometry g) = 1 \<Longrightarrow>
        all_coords (recurse_nested_geometry g ! 0) = all_coords_list (recurse_nested_geometry g)"
    by (cases "recurse_nested_geometry g") auto
  ultimately show ?thesis
    by (auto simp: flatten_multipart_geometry_def Let_def)
qed

lemma has_z_flatten: "has_z (fst (flatten_multipart_geometry g)) = has_z g"
  by (simp add: has_z_set all_coords_flatten)

lemma get_clamped_geometry_Inr:
  assumes "get_clamped_geometry L g = Inr (c, rs)"
  obtains u where "c = transform clamp_lat u"
    and "u = transform wrap_lon g \<or> u = transform unwrap_lon (transform wrap_lon g)"
    and "rs = [if 0 < length (filter (\<lambda>(x, y, z). clamp y \<noteq> y) (all_coords u))
               then Some (CLAMP, ClampedValues (length (filter (\<lambda>(x, y, z). clamp y \<noteq> y) (all_coords u))))
               else None,
               if 0 < length (filter (\<lambda>(x, y, z). wrapped_lon x \<noteq> x) (all_coords g))
               then Some (WRAP, WrappedValues (length (filter (\<lambda>(x, y, z). wrapped_lon x \<noteq> x) (all_coords g))))
               else None]"
  using assms unfolding get_clamped_geometry_def Let_def
  by (auto split: sum.splits option.splits prod.splits if_splits)

lemma clamped_no_z: "get_clamped_geometry L g = Inr (c, rs) \<Longrightarrow> \<not> has_z c"
  by (erule get_clamped_geometry_Inr) (simp add: has_z_transform clamp_lat_def case_prod_beta)

lemma simplify_geometry_Inr:
  assumes "simplify_geometry L g = Some (Inr (g', ds))"
  obtains clamped clamp_report mr merged merge_report simplified simplified_report
          reoriented reorientation_report
  where "get_clamped_geometry L (fst (flatten_multipart_geometry g)) = Inr (clamped, clamp_report)"
    and "merge_overlapping_geometry L clamped = Inr mr"
    and "unpack mr = Inr (merged, merge_report)"
    and "simplify_aoi L (fst (get_convex_hull L merged)) 0.00001 10
           = Some (Inr (simplified, simplified_report))"
    and "counter_clockwise_reorientation L simplified = Inr (reoriented, reorientation_report)"
    and "g' = transform round14 reoriented"
    and "ds = snd (flatten_multipart_geometry g)
              @ map the (filter (\<lambda>r. r \<noteq> None)
                  ([merge_report, snd (get_convex_hull L merged)] @ clamp_report
                   @ map Some simplified_report @ [reorientation_report]))"
  using assms unfolding simplify_geometry_def Let_def
  by (auto split: prod.splits sum.splits option.splits)

lemma simplified_no_z: "simplify_geometry L g = Some (Inr (g', ds)) \<Longrightarrow> \<not> has_z g'"
  by (erule simplify_geometry_Inr) (simp add: has_z_transform round14_def case_prod_beta)

lemma simplify_aoi_reports:
  "simplify_aoi L g t (int n) = Some (Inr (s, rs))
     \<Longrightarrow> list_all (\<lambda>r. fst r = GEOMETRY_SIMPLIFICATION) rs"
proof (induction n arbitrary: g t s rs)
  case 0
  then show ?case
    by (subst (asm) simplify_aoi.simps) (auto split: sum.splits if_splits simp: Let_def)
next
  case (Suc n)
  have step: "int (Suc n) - 1 = int n" by simp
  from Suc.prems show ?case
    by (subst (asm) simplify_aoi.simps)
       (auto split: sum.splits if_splits prod.splits Option.bind_splits
             simp: Let_def step dest: Suc.IH)
qed

lemma clamp_reports:
  "get_clamped_geometry L g = Inr (c, rs) \<Longrightarrow> list_all (\<lambda>r. fst r \<noteq> HIGHER_DIMENSION_DROPPED) (map the (filter (\<lambda>r. r \<noteq> None) rs))"
  by (erule get_clamped_geometry_Inr) simp

lemma merge_reports:
  "merge_overlapping_geometry L g = Inr mr \<Longrightarrow> unpack mr = Inr (m, r)
     \<Longrightarrow> r = None \<or> (\<exists>x. r = Some (OVERLAP_MERGE, x))"
  by (cases mr) (auto simp: merge_overlapping_geometry_def Let_def split: if_splits sum.splits)

lemma convex_reports:
  "snd (get_convex_hull L g) = None
   \<or> snd (get_convex_hull L g) = Some (CONVEX_HULL_INDIVIDUAL, UnconnectedShapesHulled)"
  by (simp add: get_convex_hull_def)

lemma reorientation_reports:
  "counter_clockwise_reorientation L g = Inr (g', r)
     \<Longrightarrow> r = None \<or> r = Some (REVERSE, ReversedWindingOrder)"
  by (auto simp: counter_clockwise_reorientation_def split: sum.splits if_splits)

lemma simplify_geometry_reports:
  assumes "simplify_geometry L g = Some (Inr (g', ds))"
  shows "\<exists>rest. ds = snd (flatten_multipart_geometry g) @ rest \<and> list_all (\<lambda>r. fst r \<noteq> HIGHER_DIMENSION_DROPPED) rest"
proof -
  from assms obtain clamped clamp_report mr merged merge_report simplified simplified_report
          reoriented reorientation_report
  where h: "get_clamped_geometry L (fst (flatten_multipart_geometry g)) = Inr (clamped, clamp_report)"
     "merge_overlapping_geometry L clamped = Inr mr"
     "unpack mr = Inr (merged, merge_report)"
     "simplify_aoi L (fst (get_convex_hull L merged)) 0.00001 10
           = Some (Inr (simplified, simplified_report))"
     "counter_clockwise_reorientation L simplified = Inr (reoriented, reorientation_report)"
     "g' = transform round14 reoriented"
     "ds = snd (flatten_multipart_geometry g)
              @ map the (filter (\<lambda>r. r \<noteq> None)
                  ([merge_report, snd (get_convex_hull L merged)] @ clamp_report
                   @ map Some simplified_report @ [reorientation_report]))"
    by (rule simplify_geometry_Inr)
  have "simplify_aoi L (fst (get_convex_hull L merged)) 0.00001 (int 10)
           = Some (Inr (simplified, simplified_report))" using h(4) by simp
  then have s: "list_all (\<lambda>r. fst r = GEOMETRY_SIMPLIFICATION) simplified_report"
    by (rule simplify_aoi_reports)
  have s': "list_all (\<lambda>r. fst r \<noteq> HIGHER_DIMENSION_DROPPED) (map the (filter (\<lambda>r. r \<noteq> None) (map Some simplified_report)))"
    using s by (induction simplified_report) auto
  have "list_all (\<lambda>r. fst r \<noteq> HIGHER_DIMENSION_DROPPED) (map the (filter (\<lambda>r. r \<noteq> None)
                  ([merge_report, snd (get_convex_hull L merged)] @ clamp_report
                   @ map Some simplified_report @ [reorientation_report])))"
    using clamp_reports [OF h(1)] merge_reports [OF h(2,3)] convex_reports [of L merged]
      reorientation_reports [OF h(5)] s'
    by auto
  then show ?thesis using h(7) by blast
qed

section \<open>Third ordinate\<close>

lemma py_round_int: "py_round (of_int k) n = of_int k"
proof -
  have "(of_int k::real) * 10 ^ n = of_int (k * 10 ^ n)" by simp
  then have "round_half_even (of_int k * 10 ^ n) = k * 10 ^ n"
    unfolding round_half_even_def Let_def by (simp only: floor_of_int) simp
  then show ?thesis by (simp add: py_round_def)
qed

lemma py_round_numeral: "py_round (numeral k) n = numeral k" "py_round 0 n = 0"
  using py_round_int [of "numeral k" n] py_round_int [of 0 n] by simp_all

lemma simplify_aoi_Point: "simplify_aoi L (Point c) t d = Some (Inr (Point c, []))"
  by (subst simplify_aoi.simps) (auto simp: nearest_neighbor_def split: option.splits)

lemma pipeline_Point_z:
  "simplify_geometry shapely_stub (Point (Some (10, 20, Some 5)))
   = Some (Inr (Point (Some (10, 20, None)), [(HIGHER_DIMENSION_DROPPED, HigherDimensionIgnored)]))"
  by (simp add: shapely_stub_def simplify_geometry_def flatten_multipart_geometry_def
     has_z_def is_empty_def get_clamped_geometry_def wrap_lon_def wrapped_lon_def bounds_def
     clamp_lat_def clamp_def merge_overlapping_geometry_def get_convex_hull_def simplify_aoi_Point
     counter_clockwise_reorientation_def round14_def py_round_numeral)

text \<open>
  Claim C8, as stated, fails at the Flattener: \<open>_flatten_multipart_geometry\<close> emits the
  warning and returns the geometry with its third ordinate. At the point \<open>(10, 20, 5)\<close> the
  geometry produced by the Flattener stage still has a Z coordinate.
\<close>

theorem C8_flattener_keeps_z:
  "has_z (Point (Some (10, 20, Some 5)))
   \<and> flatten_multipart_geometry (Point (Some (10, 20, Some 5)))
       = (Point (Some (10, 20, Some 5)), [(HIGHER_DIMENSION_DROPPED, HigherDimensionIgnored)])
   \<and> has_z (fst (flatten_multipart_geometry (Point (Some (10, 20, Some 5)))))"
  by (simp add: flatten_multipart_geometry_def has_z_def is_empty_def)

text \<open>
  Claim C8, amended. For every input geometry carrying a Z component, the Flattener emits
  \<open>HIGHER_DIMENSION_DROPPED\<close> exactly once, before descending, and returns the geometry with
  its Z coordinates; no Z coordinate appears in the geometry produced by the Coordinate
  Normalizer, the next stage, nor in the geometry that the pipeline returns, and the
  diagnostics of a successful run start with that one \<open>HIGHER_DIMENSION_DROPPED\<close> and hold
  no other.
\<close>

theorem C8_z_dropped_by_normalizer:
  "has_z g \<longrightarrow>
     snd (flatten_multipart_geometry g) = [(HIGHER_DIMENSION_DROPPED, HigherDimensionIgnored)]
     \<and> has_z (fst (flatten_multipart_geometry g))
     \<and> (\<forall>clamped r. get_clamped_geometry L (fst (flatten_multipart_geometry g)) = Inr (clamped, r)
           \<longrightarrow> \<not> has_z clamped)
     \<and> (\<forall>out ds. simplify_geometry L g = Some (Inr (out, ds)) \<longrightarrow>
           \<not> has_z out
           \<and> (\<exists>rest. ds = (HIGHER_DIMENSION_DROPPED, HigherDimensionIgnored) # rest
                 \<and> list_all (\<lambda>r. fst r \<noteq> HIGHER_DIMENSION_DROPPED) rest))"
proof
  assume z: "has_z g"
  have w: "snd (flatten_multipart_geometry g) = [(HIGHER_DIMENSION_DROPPED, HigherDimensionIgnored)]"
    using z by (simp add: flatten_multipart_geometry_def Let_def)
  have "\<exists>rest. ds = (HIGHER_DIMENSION_DROPPED, HigherDimensionIgnored) # rest
                 \<and> list_all (\<lambda>r. fst r \<noteq> HIGHER_DIMENSION_DROPPED) rest"
    if "simplify_geometry L g = Some (Inr (out, ds))" for out ds
    using simplify_geometry_reports [OF that] w by auto
  then show "snd (flatten_multipart_geometry g) = [(HIGHER_DIMENSION_DROPPED, HigherDimensionIgnored)]
     \<and> has_z (fst (flatten_multipart_geometry g))
     \<and> (\<forall>clamped r. get_clamped_geometry L (fst (flatten_multipart_geometry g)) = Inr (clamped, r)
           \<longrightarrow> \<not> has_z clamped)
     \<and> (\<forall>out ds. simplify_geometry L g = Some (Inr (out, ds)) \<longrightarrow>
           \<not> has_z out
           \<and> (\<exists>rest. ds = (HIGHER_DIMENSION_DROPPED, HigherDimensionIgnored) # rest
                 \<and> list_all (\<lambda>r. fst r \<noteq> HIGHER_DIMENSION_DROPPED) rest))"
    using w z by (auto simp: has_z_flatten dest: clamped_no_z simplified_no_z)
qed

theorem C8_z_dropped_by_normalizer_witness:
  "has_z (Point (Some (10, 20, Some 5)))
   \<and> get_clamped_geometry shapely_stub (fst (flatten_multipart_geometry (Point (Some (10, 20, Some 5)))))
       = Inr (Point (Some (10, 20, None)), [None, None])
   \<and> \<not> has_z (Point (Some (10, 20, None)))
   \<and> simplify_geometry shapely_stub (Point (Some (10, 20, Some 5)))
       = Some (Inr (Point (Some (10, 20, None)),
                    [(HIGHER_DIMENSION_DROPPED, HigherDimensionIgnored)]))"
  using C8_z_dropped_by_normalizer [of "Point (Some (10, 20, Some 5))" shapely_stub]
  by (simp add: pipeline_Point_z has_z_def flatten_multipart_geometry_def is_empty_def
        get_clamped_geometry_def wrap_lon_def wrapped_lon_def bounds_def clamp_lat_def clamp_def)

section \<open>Nearest-neighbour distance of two points on the equator\<close>



section \<open>Outcome of the adaptive simplifier\<close>














section \<open>Coordinate range\<close>

































end
